theory Spec2Isabelle
  imports Complex_Main "HOL-Library.AList"
begin

section \<open>JavaScript values\<close>

text \<open>
  The solver is JavaScript. A number is an IEEE 754 double: a finite value (the real it
  denotes), \<open>+Infinity\<close>, \<open>-Infinity\<close> or \<open>NaN\<close>. Every arithmetic operation rounds its
  exact result to the nearest double, ties to even, and overflows to an infinity; a store
  into a \<open>Float32Array\<close> rounds once more, to the nearest single. The special values
  follow the language: an operation on \<open>undefined\<close> gives \<open>NaN\<close>, every comparison with
  \<open>NaN\<close> is false, a division by zero gives an infinity or \<open>NaN\<close>. The sign of zero is
  the one thing left out: \<open>-0\<close> is \<open>0\<close>.
\<close>

datatype jsnum = Num real | PInf | NInf | NaN

datatype jsval = Undefined | Number jsnum

subsection \<open>Rounding\<close>

text \<open>
  The binary exponent of a positive number: the \<open>e\<close> with \<open>2^e \<le> x < 2^(e+1)\<close>, found
  by halving or doubling at most \<open>n\<close> times.
\<close>

fun float_exponent :: "nat \<Rightarrow> real \<Rightarrow> int" where
  "float_exponent 0 x = 0"
| "float_exponent (Suc n) x =
     (if 2 \<le> x then float_exponent n (x / 2) + 1
      else if x < 1 then float_exponent n (x * 2) - 1
      else 0)"

text \<open>The nearest integer, the even one of two that are equally near.\<close>

definition round_even :: "real \<Rightarrow> int" where
  "round_even x =
     (let f = \<lfloor>x\<rfloor>; d = x - of_int f
      in if d < 1 / 2 then f
         else if 1 / 2 < d then f + 1
         else if even f then f else f + 1)"

text \<open>
  The nearest multiple of the unit in the last place of a number of exponent \<open>e\<close>, for a
  significand of \<open>p\<close> bits.
\<close>

definition rounded :: "nat \<Rightarrow> int \<Rightarrow> real \<Rightarrow> real" where
  "rounded p e x =
     (let q = e - (int p - 1) in of_int (round_even (x / 2 powi q)) * 2 powi q)"

text \<open>
  Rounding to the format of \<open>p\<close> significant bits and exponents from \<open>emin\<close> to \<open>emax\<close>:
  below \<open>2^emin\<close> the unit stays that of \<open>emin\<close> (gradual underflow), and a rounded
  magnitude of \<open>2^(emax+1)\<close> or more is an infinity. The 1100 steps of the exponent search
  cover both formats: a number beyond them overflows, or is below the smallest unit,
  whatever the exponent found.
\<close>

definition round_to :: "nat \<Rightarrow> int \<Rightarrow> int \<Rightarrow> real \<Rightarrow> jsnum" where
  "round_to p emin emax x =
     (if x = 0 then Num 0
      else let r = rounded p (max (float_exponent 1100 \<bar>x\<bar>) emin) x
           in if 2 powi (emax + 1) \<le> \<bar>r\<bar> then (if 0 < x then PInf else NInf)
              else Num r)"

definition round64 :: "real \<Rightarrow> jsnum" where
  "round64 x = round_to 53 (- 1022) 1023 x"

definition round32 :: "real \<Rightarrow> jsnum" where
  "round32 x = round_to 24 (- 126) 127 x"

text \<open>The value a \<open>Float32Array\<close> holds after a number is stored into it.\<close>

fun fround :: "jsnum \<Rightarrow> jsnum" where
  "fround (Num x) = round32 x"
| "fround PInf = PInf"
| "fround NInf = NInf"
| "fround NaN = NaN"

subsection \<open>Conversions and operators\<close>

text \<open>\<open>ToNumber\<close>, as applied to an operand of \<open>+\<close>, \<open>-\<close>, \<open>*\<close>, \<open>/\<close> and \<open><\<close>.\<close>

fun to_number :: "jsval \<Rightarrow> jsnum" where
  "to_number Undefined = NaN"
| "to_number (Number n) = n"

text \<open>\<open>ToBoolean\<close>, as applied to the condition of an \<open>if\<close>.\<close>

fun truthy :: "jsval \<Rightarrow> bool" where
  "truthy Undefined = False"
| "truthy (Number (Num x)) = (x \<noteq> 0)"
| "truthy (Number NaN) = False"
| "truthy (Number PInf) = True"
| "truthy (Number NInf) = True"

fun js_neg :: "jsnum \<Rightarrow> jsnum" where
  "js_neg (Num x) = Num (- x)"
| "js_neg PInf = NInf"
| "js_neg NInf = PInf"
| "js_neg NaN = NaN"

fun js_add :: "jsnum \<Rightarrow> jsnum \<Rightarrow> jsnum" where
  "js_add (Num x) (Num y) = round64 (x + y)"
| "js_add NaN _ = NaN"
| "js_add _ NaN = NaN"
| "js_add PInf NInf = NaN"
| "js_add NInf PInf = NaN"
| "js_add PInf _ = PInf"
| "js_add _ PInf = PInf"
| "js_add NInf _ = NInf"
| "js_add _ NInf = NInf"

definition js_sub :: "jsnum \<Rightarrow> jsnum \<Rightarrow> jsnum" where
  "js_sub a b = js_add a (js_neg b)"

fun js_mul :: "jsnum \<Rightarrow> jsnum \<Rightarrow> jsnum" where
  "js_mul (Num x) (Num y) = round64 (x * y)"
| "js_mul NaN _ = NaN"
| "js_mul _ NaN = NaN"
| "js_mul PInf (Num y) = (if y = 0 then NaN else if 0 < y then PInf else NInf)"
| "js_mul NInf (Num y) = (if y = 0 then NaN else if 0 < y then NInf else PInf)"
| "js_mul (Num x) PInf = (if x = 0 then NaN else if 0 < x then PInf else NInf)"
| "js_mul (Num x) NInf = (if x = 0 then NaN else if 0 < x then NInf else PInf)"
| "js_mul PInf PInf = PInf"
| "js_mul NInf NInf = PInf"
| "js_mul PInf NInf = NInf"
| "js_mul NInf PInf = NInf"

fun js_div :: "jsnum \<Rightarrow> jsnum \<Rightarrow> jsnum" where
  "js_div (Num x) (Num y) =
     (if y = 0 then (if x = 0 then NaN else if 0 < x then PInf else NInf)
      else round64 (x / y))"
| "js_div NaN _ = NaN"
| "js_div _ NaN = NaN"
| "js_div PInf (Num y) = (if 0 \<le> y then PInf else NInf)"
| "js_div NInf (Num y) = (if 0 \<le> y then NInf else PInf)"
| "js_div (Num x) PInf = Num 0"
| "js_div (Num x) NInf = Num 0"
| "js_div PInf PInf = NaN"
| "js_div PInf NInf = NaN"
| "js_div NInf PInf = NaN"
| "js_div NInf NInf = NaN"

fun js_lt :: "jsnum \<Rightarrow> jsnum \<Rightarrow> bool" where
  "js_lt (Num x) (Num y) = (x < y)"
| "js_lt NaN _ = False"
| "js_lt _ NaN = False"
| "js_lt NInf NInf = False"
| "js_lt NInf _ = True"
| "js_lt PInf _ = False"
| "js_lt (Num x) PInf = True"
| "js_lt (Num x) NInf = False"

definition js_gt :: "jsnum \<Rightarrow> jsnum \<Rightarrow> bool" where
  "js_gt a b = js_lt b a"

text \<open>Strict equality \<open>===\<close>: \<open>NaN\<close> equals nothing, \<open>undefined\<close> equals only itself.\<close>

fun strict_eq :: "jsval \<Rightarrow> jsval \<Rightarrow> bool" where
  "strict_eq Undefined Undefined = True"
| "strict_eq (Number a) (Number b) = (a \<noteq> NaN \<and> a = b)"
| "strict_eq _ _ = False"

text \<open>
  Reading element \<open>i\<close> of an array as an operand: an index past the end reads
  \<open>undefined\<close>, which the arithmetic turns into \<open>NaN\<close>.
\<close>

definition elem :: "jsnum list \<Rightarrow> nat \<Rightarrow> jsnum" where
  "elem xs i = (if i < length xs then xs ! i else to_number Undefined)"

section \<open>The D2Q9 constants\<close>

text \<open>The three weights are quotients of doubles.\<close>

definition w0 :: jsnum where "w0 = js_div (Num 4) (Num 9)"
definition w1 :: jsnum where "w1 = js_div (Num 1) (Num 9)"
definition w2 :: jsnum where "w2 = js_div (Num 1) (Num 36)"

text \<open>
  The three tables are \<open>Float32Array\<close>s made from array literals: every element is
  stored as a single. Order of the nine directions: 0, N, NE, E, SE, S, SW, W, NW.
\<close>

definition weights :: "jsnum list" where
  "weights = map fround [w0, w1, w2, w1, w2, w1, w2, w1, w2]"

definition ex :: "jsnum list" where
  "ex = map fround (map Num [0, 0, 1, 1, 1, 0, -1, -1, -1])"

definition ey :: "jsnum list" where
  "ey = map fround (map Num [0, 1, 1, 0, -1, -1, -1, 0, 1])"

section \<open>Macroscopic quantities\<close>

text \<open>\<open>getDensity\<close>: the sum of the nine components, accumulated from 0.\<close>

definition getDensity :: "jsnum list \<Rightarrow> jsnum" where
  "getDensity densities =
     fold (\<lambda>i tDensity. js_add tDensity (elem densities i)) [0..<9] (Num 0)"

text \<open>
  \<open>getVelocity\<close>: one loop accumulates the density and the momentum; below the
  threshold \<open>1e-14\<close> (the double nearest to it) the function returns \<open>[0, 0]\<close> before it
  divides.
\<close>

definition velocity_sums :: "jsnum list \<Rightarrow> jsnum \<times> jsnum \<times> jsnum" where
  "velocity_sums densities =
     fold (\<lambda>i (tDensity, vx, vy).
             (js_add tDensity (elem densities i),
              js_add vx (js_mul (elem ex i) (elem densities i)),
              js_add vy (js_mul (elem ey i) (elem densities i))))
          [0..<9] (Num 0, Num 0, Num 0)"

definition getVelocity :: "jsnum list \<Rightarrow> jsnum \<times> jsnum" where
  "getVelocity densities =
     (case velocity_sums densities of (tDensity, vx, vy) \<Rightarrow>
        if js_lt tDensity (round64 (1 / 10 ^ 14)) then (Num 0, Num 0)
        else (js_div vx tDensity, js_div vy tDensity))"

section \<open>Equilibrium distribution\<close>

text \<open>
  \<open>equilibrium\<close> in three parts, in the order of its body. First the density and the
  momentum: the accumulators start from component 0 and the loop adds components 1 to 8.
\<close>

definition equilibrium_moments :: "jsnum list \<Rightarrow> jsnum \<times> jsnum \<times> jsnum" where
  "equilibrium_moments densities =
     fold (\<lambda>i (totalDensity, ux, uy).
             (js_add totalDensity (elem densities i),
              js_add ux (js_mul (elem ex i) (elem densities i)),
              js_add uy (js_mul (elem ey i) (elem densities i))))
          [1..<9]
          (elem densities 0,
           js_mul (elem ex 0) (elem densities 0),
           js_mul (elem ey 0) (elem densities 0))"

text \<open>
  Then the normalisation: the momentum is divided by the density only under the guard
  \<open>totalDensity > 0\<close>; otherwise \<open>ux\<close> and \<open>uy\<close> keep the momentum.
\<close>

definition equilibrium_velocity :: "jsnum list \<Rightarrow> jsnum \<times> jsnum" where
  "equilibrium_velocity densities =
     (case equilibrium_moments densities of (totalDensity, ux, uy) \<Rightarrow>
        if js_gt totalDensity (Num 0)
        then (js_div ux totalDensity, js_div uy totalDensity)
        else (ux, uy))"

definition equilibrium_density :: "jsnum list \<Rightarrow> jsnum" where
  "equilibrium_density densities = fst (equilibrium_moments densities)"

text \<open>
  The nine equilibrium values from density and velocity, each stored into the new
  \<open>Float32Array\<close> that is returned.
\<close>

definition feq_of :: "jsnum \<Rightarrow> jsnum \<Rightarrow> jsnum \<Rightarrow> jsnum list" where
  "feq_of totalDensity ux uy =
     (let u2 = js_add (js_mul ux ux) (js_mul uy uy);
          c1 = Num 3;
          c2 = Num (9 / 2);
          c3 = Num (- (3 / 2))
      in map (\<lambda>i.
            let term = js_add (js_mul (elem ex i) ux) (js_mul (elem ey i) uy)
            in fround
                 (js_mul (js_mul (elem weights i) totalDensity)
                    (js_add (js_add (js_add (Num 1) (js_mul c1 term))
                                    (js_mul (js_mul c2 term) term))
                            (js_mul c3 u2))))
          [0..<9])"

text \<open>
  \<open>equilibrium(densities, accelXTau, accelYTau)\<close> of the lattice solver: the forcing is
  added to \<open>ux\<close> only when \<open>accelXTau\<close> is truthy (the call in \<open>collideAndStream\<close> passes
  no forcing at all, so it is \<open>undefined\<close> there); \<open>accelYTau\<close> is never used.
\<close>

definition equilibrium :: "jsnum list \<Rightarrow> jsval \<Rightarrow> jsval \<Rightarrow> jsnum list" where
  "equilibrium densities accelXTau accelYTau =
     (case equilibrium_velocity densities of (ux, uy) \<Rightarrow>
        feq_of (equilibrium_density densities)
          (if truthy accelXTau then js_add ux (to_number accelXTau) else ux) uy)"


section \<open>Collision\<close>

text \<open>
  Both operators update the nine components in place, in index order. The array they
  update is a \<open>Float32Array\<close> (a cell's \<open>density\<close>; in the draft, where they are the same
  loops, the module's \<open>density\<close>): each new component is stored as a single, and a write
  past the end is dropped, as \<open>list_update\<close> does.
\<close>

definition collision :: "jsnum list \<Rightarrow> jsnum list \<Rightarrow> jsnum \<Rightarrow> jsnum list" where
  "collision densities eqDist tau =
     fold (\<lambda>i ds. ds[i := fround (js_sub (elem ds i)
                                      (js_div (js_sub (elem ds i) (elem eqDist i)) tau))])
          [0..<9] densities"

definition fastCollision :: "jsnum list \<Rightarrow> jsnum list \<Rightarrow> jsnum \<Rightarrow> jsnum list" where
  "fastCollision densities eqDist omega =
     fold (\<lambda>i ds. ds[i := fround (js_sub (elem ds i)
                                      (js_mul omega (js_sub (elem ds i) (elem eqDist i))))])
          [0..<9] densities"

section \<open>Direction reversal\<close>

text \<open>The values of the object \<open>CellDirection\<close>.\<close>

definition CellDirection_none :: nat where "CellDirection_none = 0"
definition CellDirection_N :: nat where "CellDirection_N = 1"
definition CellDirection_NE :: nat where "CellDirection_NE = 2"
definition CellDirection_E :: nat where "CellDirection_E = 3"
definition CellDirection_SE :: nat where "CellDirection_SE = 4"
definition CellDirection_S :: nat where "CellDirection_S = 5"
definition CellDirection_SW :: nat where "CellDirection_SW = 6"
definition CellDirection_W :: nat where "CellDirection_W = 7"
definition CellDirection_NW :: nat where "CellDirection_NW = 8"

text \<open>
  \<open>reverseDir(dir)\<close> compares its argument with properties of the argument itself
  (\<open>dir.N\<close>, \<open>dir.S\<close>, ...) and returns such properties. A direction is a number (the
  values of \<open>CellDirection\<close>), and a number has none of these properties: each reads
  \<open>undefined\<close>.
\<close>

definition number_property :: "jsnum \<Rightarrow> string \<Rightarrow> jsval" where
  "number_property n name = Undefined"

definition reverseDir :: "jsnum \<Rightarrow> jsval" where
  "reverseDir dir =
     (if strict_eq (Number dir) (number_property dir ''N'') then number_property dir ''S''
      else if strict_eq (Number dir) (number_property dir ''S'') then number_property dir ''N''
      else if strict_eq (Number dir) (number_property dir ''W'') then number_property dir ''E''
      else if strict_eq (Number dir) (number_property dir ''E'') then number_property dir ''W''
      else if strict_eq (Number dir) (number_property dir ''NE'') then number_property dir ''SW''
      else if strict_eq (Number dir) (number_property dir ''SE'') then number_property dir ''NW''
      else if strict_eq (Number dir) (number_property dir ''NW'') then number_property dir ''SE''
      else if strict_eq (Number dir) (number_property dir ''SW'') then number_property dir ''NE''
      else number_property dir ''none'')"

text \<open>
  The component that \<open>bouncebackObstacles\<close> reads for each direction, as its array
  literal lists them: 0, then N from S, NE from SW, E from W, SE from NW, and back.
\<close>

definition bounce_component :: "nat \<Rightarrow> nat" where
  "bounce_component i = [0, 5, 6, 7, 8, 1, 2, 3, 4] ! i"

section \<open>The lattice and the heap\<close>

text \<open>
  The cells of a lattice live in a \<open>Map\<close> object keyed by the string \<open>`${x},${y}`\<close>. A
  number prints to a string that holds no comma and that no other number prints to, so
  the string is given here by the pair of the two numbers (\<open>"NaN,NaN"\<close> is the pair of
  two \<open>NaN\<close>). A \<open>Map\<close> keeps insertion order and \<open>set\<close> replaces the value of a key it
  already holds in place: an association list under \<open>AList.update\<close>.
\<close>

type_synonym key = "jsnum \<times> jsnum"

definition cell_key :: "jsnum \<Rightarrow> jsnum \<Rightarrow> key" where
  "cell_key x y = (x, y)"

text \<open>
  A cell object. A solid cell has no \<open>ex\<close>, \<open>ey\<close> and \<open>density\<close> property. The density
  of a fluid cell is a \<open>Float32Array\<close>, which \<open>collision\<close> updates in place: the cell
  holds its address in the heap of arrays.
\<close>

record cell =
  cx :: jsnum
  cy :: jsnum
  ctype :: string
  velocity :: "jsnum \<times> jsnum"
  cex :: "jsnum list option"
  cey :: "jsnum list option"
  density :: "nat option"

text \<open>
  A lattice object holds the address of its \<open>Map\<close>; the object has the four properties
  that \<open>initLattice\<close> gives it and no other.
\<close>

record lattice =
  cells :: nat
  solidNodesIndices :: "(jsnum \<times> jsnum) list"
  nx :: nat
  ny :: nat

text \<open>
  The store: the \<open>Map\<close> objects and the typed arrays by address, the next free address,
  and the two module variables that are assigned to (\<open>isGhost\<close>) or declared with \<open>let\<close>
  (\<open>omega\<close>).
\<close>

record state =
  maps :: "nat \<Rightarrow> (key \<times> cell) list"
  arrays :: "nat \<Rightarrow> jsnum list"
  next_ref :: nat
  isGhost :: bool
  omega :: jsnum

datatype error = TypeError | ReferenceError

text \<open>
  The outcome of a call: \<open>None\<close> when it does not return, \<open>Some (Inl e)\<close> when it throws
  \<open>e\<close>, \<open>Some (Inr v)\<close> when it returns \<open>v\<close>.
\<close>

type_synonym 'a outcome = "(error + 'a) option"

definition rows :: nat where "rows = 20"
definition cols :: nat where "cols = 60"
definition STEPS_IN_FRAME :: nat where "STEPS_IN_FRAME = 5"
definition T_MAX :: nat where "T_MAX = 5"
definition tau :: jsnum where "tau = round64 (6 / 10)"
definition accelX :: jsnum where "accelX = round64 (1 / 10 ^ 6)"
definition accelY :: jsnum where "accelY = Num 0"

definition new_Map :: "state \<Rightarrow> nat \<times> state" where
  "new_Map s =
     (next_ref s, s\<lparr>maps := (maps s)(next_ref s := []), next_ref := Suc (next_ref s)\<rparr>)"

definition new_Float32Array :: "jsnum list \<Rightarrow> state \<Rightarrow> nat \<times> state" where
  "new_Float32Array xs s =
     (next_ref s, s\<lparr>arrays := (arrays s)(next_ref s := xs), next_ref := Suc (next_ref s)\<rparr>)"

definition cells_get :: "state \<Rightarrow> nat \<Rightarrow> key \<Rightarrow> cell option" where
  "cells_get s m k = map_of (maps s m) k"

definition cells_set :: "nat \<Rightarrow> key \<Rightarrow> cell \<Rightarrow> state \<Rightarrow> state" where
  "cells_set m k c s = s\<lparr>maps := (maps s)(m := AList.update k c (maps s m))\<rparr>"

subsection \<open>Initialisation\<close>

definition fluid_cell :: "nat \<Rightarrow> nat \<Rightarrow> nat \<Rightarrow> cell" where
  "fluid_cell x y d =
     \<lparr>cx = Num (real x), cy = Num (real y), ctype = ''fluid'', velocity = (Num 0, Num 0),
      cex = Some ex, cey = Some ey, density = Some d\<rparr>"

definition solid_cell :: "jsnum \<Rightarrow> jsnum \<Rightarrow> cell" where
  "solid_cell x y =
     \<lparr>cx = x, cy = y, ctype = ''solid'', velocity = (Num 0, Num 0),
      cex = None, cey = None, density = None\<rparr>"

text \<open>The body of the inner loop of the first sweep: a fresh copy of the weights.\<close>

definition init_cell :: "nat \<Rightarrow> nat \<Rightarrow> nat \<Rightarrow> state \<Rightarrow> state" where
  "init_cell m y x s =
     (case new_Float32Array weights s of (d, s1) \<Rightarrow>
        cells_set m (cell_key (Num (real x)) (Num (real y))) (fluid_cell x y d) s1)"

text \<open>
  \<open>Math.floor(Math.random() * n)\<close>, for the value \<open>r\<close> that \<open>Math.random()\<close> returned. The
  product is exact here; \<open>r\<close> is any real of \<open>[0, 1)\<close>, so every index that the floor of the
  rounded product of a double can give is among those of the exact one.
\<close>

definition random_index :: "real \<Rightarrow> nat \<Rightarrow> jsnum" where
  "random_index r n = Num (of_int \<lfloor>r * real n\<rfloor>)"

text \<open>
  The body of the second loop. \<open>rnd k\<close> is what the \<open>k\<close>-th call of \<open>Math.random\<close> of the
  run returned; iteration \<open>i\<close> makes the calls \<open>2 i\<close> and \<open>2 i + 1\<close>.
\<close>

definition place_solid ::
  "(nat \<Rightarrow> real) \<Rightarrow> nat \<Rightarrow> nat \<Rightarrow> state \<times> (jsnum \<times> jsnum) list \<Rightarrow> state \<times> (jsnum \<times> jsnum) list"
where
  "place_solid rnd m i acc =
     (case acc of (s, indices) \<Rightarrow>
        let x = random_index (rnd (2 * i)) cols;
            y = random_index (rnd (2 * i + 1)) rows
        in (cells_set m (cell_key x y) (solid_cell x y) s, indices @ [(x, y)]))"

definition initLattice :: "(nat \<Rightarrow> real) \<Rightarrow> state \<Rightarrow> lattice \<times> state" where
  "initLattice rnd s =
     (case new_Map s of (m, s1) \<Rightarrow>
        let s2 = fold (\<lambda>y. fold (\<lambda>x. init_cell m y x) [0..<cols]) [0..<rows] s1
        in case fold (place_solid rnd m) [0..<100] (s2, []) of (s3, indices) \<Rightarrow>
             (\<lparr>cells = m, solidNodesIndices = indices, nx = cols, ny = rows\<rparr>, s3))"

text \<open>
  \<open>Object.assign({}, src)\<close>: a new object whose properties get the values of the
  properties of \<open>src\<close>; a value that is an object (the \<open>Map\<close>) is copied as its address.
\<close>

definition object_assign :: "lattice \<Rightarrow> lattice" where
  "object_assign src =
     \<lparr>cells = cells src, solidNodesIndices = solidNodesIndices src,
      nx = nx src, ny = ny src\<rparr>"

text \<open>The module's top level: the store before \<open>initLattice\<close> runs, then both lattices.\<close>

definition empty_state :: state where
  "empty_state =
     \<lparr>maps = (\<lambda>_. []), arrays = (\<lambda>_. []), next_ref = 0, isGhost = False, omega = Num 1\<rparr>"

definition LATTICE :: "(nat \<Rightarrow> real) \<Rightarrow> lattice" where
  "LATTICE rnd = fst (initLattice rnd empty_state)"

definition GHOST_LATTICE :: "(nat \<Rightarrow> real) \<Rightarrow> lattice" where
  "GHOST_LATTICE rnd = object_assign (LATTICE rnd)"

definition module_state :: "(nat \<Rightarrow> real) \<Rightarrow> state" where
  "module_state rnd = snd (initLattice rnd empty_state)"

subsection \<open>Node counts\<close>

definition cell_values :: "state \<Rightarrow> nat \<Rightarrow> cell list" where
  "cell_values s m = map snd (maps s m)"

definition getFluidNodes :: "cell list \<Rightarrow> cell list" where
  "getFluidNodes cs = filter (\<lambda>c. ctype c = ''fluid'') cs"

definition getSolidNodes :: "cell list \<Rightarrow> cell list" where
  "getSolidNodes cs = filter (\<lambda>c. ctype c = ''solid'') cs"

text \<open>\<open>nodes && nodes.length || 0\<close>: an array is truthy, and a length of 0 gives 0.\<close>

definition fluidNodesLength :: "cell list \<Rightarrow> nat" where
  "fluidNodesLength cs =
     (let fluidNodes = filter (\<lambda>c. ctype c = ''fluid'') cs
      in if length fluidNodes \<noteq> 0 then length fluidNodes else 0)"

definition solidNodesLength :: "cell list \<Rightarrow> nat" where
  "solidNodesLength cs =
     (let solidNodes = filter (\<lambda>c. ctype c = ''solid'') cs
      in if length solidNodes \<noteq> 0 then length solidNodes else 0)"

section \<open>Streaming\<close>

text \<open>
  A \<open>for\<close> loop whose counter starts at \<open>x\<close>, runs while \<open>x < b\<close> and is incremented by
  \<open>x++\<close>. The bound is a number of the language, so the loop need not end.
\<close>

partial_function (option) js_for ::
  "jsnum \<Rightarrow> jsnum \<Rightarrow> (jsnum \<Rightarrow> 'a \<Rightarrow> 'a outcome) \<Rightarrow> 'a \<Rightarrow> 'a outcome"
where
  "js_for x b body a =
     (if js_lt x b
      then (case body x a of
              None \<Rightarrow> None
            | Some (Inl e) \<Rightarrow> Some (Inl e)
            | Some (Inr a') \<Rightarrow> js_for (js_add x (Num 1)) b body a')
      else Some (Inr a))"

text \<open>A loop over a counter with a bound that is a constant natural number.\<close>

fun for_each :: "nat list \<Rightarrow> (nat \<Rightarrow> 'a \<Rightarrow> 'a outcome) \<Rightarrow> 'a \<Rightarrow> 'a outcome" where
  "for_each [] body a = Some (Inr a)"
| "for_each (i # rest) body a =
     (case body i a of
        None \<Rightarrow> None
      | Some (Inl e) \<Rightarrow> Some (Inl e)
      | Some (Inr a') \<Rightarrow> for_each rest body a')"

text \<open>
  \<open>getNextPos(directionIndex, x, y)\<close>: the key of \<open>x + ex[directionIndex]\<close> and
  \<open>y - ex[directionIndex]\<close> (the second component uses \<open>ex\<close> too). A parameter the call
  leaves out is \<open>undefined\<close>.
\<close>

definition getNextPos :: "nat \<Rightarrow> jsval \<Rightarrow> jsval \<Rightarrow> key" where
  "getNextPos directionIndex x y =
     cell_key (js_add (to_number x) (elem ex directionIndex))
              (js_sub (to_number y) (elem ex directionIndex))"

text \<open>
  \<open>latticeSrc.cells.get(getNextPos(i)).density[j]\<close>: the call passes the direction
  only; reading \<open>density\<close> of a missing cell, or an element of a missing \<open>density\<close>, throws
  a \<open>TypeError\<close>.
\<close>

definition neighbour_component :: "state \<Rightarrow> lattice \<Rightarrow> nat \<Rightarrow> nat \<Rightarrow> error + jsval" where
  "neighbour_component s latticeSrc i j =
     (case cells_get s (cells latticeSrc) (getNextPos i Undefined Undefined) of
        None \<Rightarrow> Inl TypeError
      | Some c \<Rightarrow>
          (case density c of
             None \<Rightarrow> Inl TypeError
           | Some d \<Rightarrow>
               Inr (if j < length (arrays s d) then Number (arrays s d ! j) else Undefined)))"

text \<open>The elements of an array literal, evaluated in order until one throws.\<close>

fun array_literal :: "(error + 'a) list \<Rightarrow> error + 'a list" where
  "array_literal [] = Inr []"
| "array_literal (Inl e # rest) = Inl e"
| "array_literal (Inr v # rest) =
     (case array_literal rest of Inl e \<Rightarrow> Inl e | Inr vs \<Rightarrow> Inr (v # vs))"

text \<open>
  The body of the loops of \<open>propagate\<close> at \<open>(x, y)\<close>. The object stored into the
  destination spreads \<open>oldSrcCells\<close>, a name that is declared nowhere: evaluating it
  throws a \<open>ReferenceError\<close> before \<open>set\<close> is called.
\<close>

definition propagate_cell ::
  "lattice \<Rightarrow> lattice \<Rightarrow> jsnum \<Rightarrow> jsnum \<Rightarrow> state \<Rightarrow> state outcome"
where
  "propagate_cell latticeSrc latticeDest x y s =
     (case cells_get s (cells latticeSrc) (cell_key x y) of
        None \<Rightarrow> Some (Inl TypeError)
      | Some oldSrcCell \<Rightarrow>
          if ctype oldSrcCell \<noteq> ''solid''
          then (case array_literal (map (\<lambda>i. neighbour_component s latticeSrc i i) [0..<9]) of
                  Inl e \<Rightarrow> Some (Inl e)
                | Inr newDensities \<Rightarrow> Some (Inl ReferenceError))
          else Some (Inr s))"

definition bounceback_cell ::
  "lattice \<Rightarrow> lattice \<Rightarrow> jsnum \<Rightarrow> jsnum \<Rightarrow> state \<Rightarrow> state outcome"
where
  "bounceback_cell latticeSrc latticeDest x y s =
     (case cells_get s (cells latticeSrc) (cell_key x y) of
        None \<Rightarrow> Some (Inl TypeError)
      | Some oldSrcCell \<Rightarrow>
          if ctype oldSrcCell = ''solid''
          then (case array_literal
                       (map (\<lambda>i. neighbour_component s latticeSrc i (bounce_component i)) [0..<9]) of
                  Inl e \<Rightarrow> Some (Inl e)
                | Inr newDensities \<Rightarrow> Some (Inl ReferenceError))
          else Some (Inr s))"

text \<open>
  The bound of both loops is \<open>latticeSrc.length - 1\<close>. A lattice object has no \<open>length\<close>
  property.
\<close>

definition lattice_length :: "lattice \<Rightarrow> jsval" where
  "lattice_length l = Undefined"

definition sweep_bound :: "lattice \<Rightarrow> jsnum" where
  "sweep_bound latticeSrc = js_sub (to_number (lattice_length latticeSrc)) (Num 1)"

definition bouncebackObstacles :: "lattice \<Rightarrow> lattice \<Rightarrow> state \<Rightarrow> state outcome" where
  "bouncebackObstacles latticeSrc latticeDest s =
     js_for (Num 1) (sweep_bound latticeSrc)
       (\<lambda>x. js_for (Num 1) (sweep_bound latticeSrc)
               (\<lambda>y. bounceback_cell latticeSrc latticeDest x y))
       s"

definition propagate :: "lattice \<Rightarrow> lattice \<Rightarrow> state \<Rightarrow> state outcome" where
  "propagate latticeSrc latticeDest s =
     (case js_for (Num 1) (sweep_bound latticeSrc)
             (\<lambda>x. js_for (Num 1) (sweep_bound latticeSrc)
                     (\<lambda>y. propagate_cell latticeSrc latticeDest x y))
             s of
        None \<Rightarrow> None
      | Some (Inl e) \<Rightarrow> Some (Inl e)
      | Some (Inr s1) \<Rightarrow> bouncebackObstacles latticeSrc latticeDest s1)"

section \<open>The step and the driver\<close>

text \<open>
  The collision of the cell at \<open>(x, y)\<close> of the current lattice. \<open>equilibrium\<close> is
  called with the densities only, \<open>collision\<close> gets \<open>omega\<close> for its \<open>tau\<close> and updates the
  cell's array in place, and the new cell object is always stored into \<open>lattice\<close>.
\<close>

definition collide_cell :: "lattice \<Rightarrow> lattice \<Rightarrow> nat \<Rightarrow> nat \<Rightarrow> state \<Rightarrow> error + state" where
  "collide_cell lattice currentLattice x y s =
     (case cells_get s (cells currentLattice) (cell_key (Num (real x)) (Num (real y))) of
        None \<Rightarrow> Inr s
      | Some cell \<Rightarrow>
          if ctype cell = ''fluid''
          then (case density cell of
                  None \<Rightarrow> Inl TypeError
                | Some d \<Rightarrow>
                    let eqDist = equilibrium (arrays s d) Undefined Undefined;
                        densitiesAfterCollision = collision (arrays s d) eqDist (omega s);
                        s1 = s\<lparr>arrays := (arrays s)(d := densitiesAfterCollision)\<rparr>;
                        velocityVec = getVelocity densitiesAfterCollision
                    in Inr (cells_set (cells lattice) (cell_key (Num (real x)) (Num (real y)))
                              (cell\<lparr>density := Some d, velocity := velocityVec\<rparr>) s1))
          else Inr s)"

text \<open>
  One pass of the innermost loop of \<open>collideAndStream\<close>, on the store and the local
  \<open>currentLattice\<close>.
\<close>

definition frame_step ::
  "lattice \<Rightarrow> lattice \<Rightarrow> nat \<Rightarrow> nat \<Rightarrow> state \<times> lattice \<Rightarrow> (state \<times> lattice) outcome"
where
  "frame_step lattice ghostLattice x y acc =
     (case acc of (s, currentLattice) \<Rightarrow>
        (case (if isGhost s then propagate lattice ghostLattice s
               else propagate ghostLattice lattice s) of
           None \<Rightarrow> None
         | Some (Inl e) \<Rightarrow> Some (Inl e)
         | Some (Inr s1) \<Rightarrow>
             let current = (if isGhost s then ghostLattice else lattice);
                 s2 = s1\<lparr>isGhost := \<not> isGhost s1\<rparr>
             in (case collide_cell lattice current x y s2 of
                   Inl e \<Rightarrow> Some (Inl e)
                 | Inr s3 \<Rightarrow> Some (Inr (s3, current)))))"

definition collideAndStream ::
  "lattice \<Rightarrow> lattice \<Rightarrow> state \<Rightarrow> (state \<times> lattice) outcome"
where
  "collideAndStream lattice ghostLattice s =
     for_each [0..<rows]
       (\<lambda>y. for_each [0..<cols]
               (\<lambda>x. for_each [0..<STEPS_IN_FRAME]
                       (\<lambda>i. frame_step lattice ghostLattice x y)))
       (s, lattice)"

text \<open>
  \<open>simulate\<close>: \<open>T_MAX\<close> steps on the two module lattices, counting the updates; the
  result is the store (through which the yielded \<open>LATTICE\<close> is read) and \<open>processed\<close>.
\<close>

definition simulate :: "lattice \<Rightarrow> lattice \<Rightarrow> state \<Rightarrow> (state \<times> nat) outcome" where
  "simulate lat ghost s =
     for_each [0..<T_MAX]
       (\<lambda>t acc. case acc of (s1, processed) \<Rightarrow>
                  (case collideAndStream lat ghost s1 of
                     None \<Rightarrow> None
                   | Some (Inl e) \<Rightarrow> Some (Inl e)
                   | Some (Inr (s2, current)) \<Rightarrow> Some (Inr (s2, processed + rows * cols))))
       (s, 0)"

section \<open>Predicates of the statements\<close>

text \<open>Whether a call returned, and whether it threw.\<close>

definition returns :: "'a outcome \<Rightarrow> bool" where
  "returns r = (case r of Some (Inr v) \<Rightarrow> True | _ \<Rightarrow> False)"

definition throws :: "'a outcome \<Rightarrow> bool" where
  "throws r = (case r of Some (Inl e) \<Rightarrow> True | _ \<Rightarrow> False)"

text \<open>
  Two numbers agree within the tolerance \<open>1e-6\<close>: both are finite and the exact distance
  of the values they denote is at most \<open>1 / 10 ^ 6\<close>.
\<close>

definition within_tolerance :: "jsnum \<Rightarrow> jsnum \<Rightarrow> bool" where
  "within_tolerance a b =
     (case (a, b) of (Num x, Num y) \<Rightarrow> \<bar>x - y\<bar> \<le> 1 / 10 ^ 6 | _ \<Rightarrow> False)"





subsection \<open>Predicates on the store\<close>

text \<open>Every fluid cell of every \<open>Map\<close> of the store has a density array.\<close>

definition has_densities :: "state \<Rightarrow> bool" where
  "has_densities s = (\<forall>m k c. map_of (maps s m) k = Some c \<longrightarrow> ctype c = ''fluid'' \<longrightarrow> density c \<noteq> None)"

text \<open>
  A cell at rest: a fluid cell whose components are the nine weights, as the array
  \<open>weights\<close> holds them, and whose velocity is \<open>(0, 0)\<close>; a lattice at rest has no other
  cell (and so no obstacle).
\<close>

definition rest_cell :: "state \<Rightarrow> cell \<Rightarrow> bool" where
  "rest_cell s c =
     (ctype c = ''fluid'' \<and> velocity c = (Num 0, Num 0) \<and>
      (case density c of None \<Rightarrow> False | Some d \<Rightarrow> arrays s d = weights))"

definition rest_lattice :: "state \<Rightarrow> lattice \<Rightarrow> bool" where
  "rest_lattice s l = list_all (rest_cell s) (cell_values s (cells l))"

text \<open>
  What is read from a cell at rest: \<open>getDensity\<close> gives the sum of the nine stored
  weights, which is \<open>1 + 2^-27\<close> (within the tolerance of 1), and the velocity, computed
  and stored, is \<open>(0, 0)\<close>.
\<close>

definition density_at_rest :: "state \<Rightarrow> cell \<Rightarrow> bool" where
  "density_at_rest s c =
     (case density c of
        None \<Rightarrow> False
      | Some d \<Rightarrow> getDensity (arrays s d) = Num (1 + 1 / 2 ^ 27)
                  \<and> within_tolerance (getDensity (arrays s d)) (Num 1)
                  \<and> getVelocity (arrays s d) = (Num 0, Num 0)
                  \<and> velocity c = (Num 0, Num 0))"

text \<open>
  The lattice without obstacles: what \<open>initLattice\<close> has built when its first loop ends,
  the \<open>cols\<close> by \<open>rows\<close> fluid cells with a copy of the weights each, before the second
  loop places the obstacles.
\<close>

definition initFluidLattice :: "state \<Rightarrow> lattice \<times> state" where
  "initFluidLattice s =
     (case new_Map s of (m, s1) \<Rightarrow>
        (\<lparr>cells = m, solidNodesIndices = [], nx = cols, ny = rows\<rparr>,
         fold (\<lambda>y. fold (\<lambda>x. init_cell m y x) [0..<cols]) [0..<rows] s1))"

text \<open>
  A cell of one of the two types; a \<open>Map\<close> whose keys are distinct and whose cells are
  all of one of the two types; the keys of a \<open>Map\<close>; the keys of the grid of \<open>cols\<close> by
  \<open>rows\<close> cells.
\<close>

definition typed_cell :: "cell \<Rightarrow> bool" where
  "typed_cell c = (ctype c = ''fluid'' \<or> ctype c = ''solid'')"

definition typed_map :: "state \<Rightarrow> nat \<Rightarrow> bool" where
  "typed_map s m = (distinct (map fst (maps s m)) \<and> list_all typed_cell (cell_values s m))"

definition keys_of :: "state \<Rightarrow> nat \<Rightarrow> key set" where
  "keys_of s m = fst ` set (maps s m)"

definition grid_keys :: "key set" where
  "grid_keys = (\<lambda>(x, y). cell_key (Num (real x)) (Num (real y))) ` ({0..<cols} \<times> {0..<rows})"

section \<open>Rounding\<close>

lemma float_exponent_numeral:
  "float_exponent (numeral k) x =
     (if 2 \<le> x then float_exponent (pred_numeral k) (x / 2) + 1
      else if x < 1 then float_exponent (pred_numeral k) (x * 2) - 1
      else 0)"
  by (simp add: numeral_eq_Suc)

lemmas round_eval = round64_def round32_def round_to_def rounded_def Let_def float_exponent_numeral
  round_even_def






lemma round_even_of_int [simp]: "round_even (of_int n) = n"
  by (simp add: round_even_def)


















section \<open>Doubles and singles\<close>



lemma round64_0 [simp]: "round64 0 = Num 0"
  by (simp add: round64_def round_to_def)

lemma round64_1 [simp]: "round64 1 = Num 1"
  by (simp add: round_eval)






section \<open>The tables\<close>

lemma upt_0_9: "[0..<9] = [0, 1, 2, 3, 4, 5, 6, 7, 8]"
  by (simp add: upt_rec)

lemma upt_1_9: "[Suc 0..<9] = [1, 2, 3, 4, 5, 6, 7, 8]"
  by (simp add: upt_rec)

lemma weights_values:
  "weights = map Num [14913081 / 2 ^ 25, 14913081 / 2 ^ 27, 14913081 / 2 ^ 29, 14913081 / 2 ^ 27,
     14913081 / 2 ^ 29, 14913081 / 2 ^ 27, 14913081 / 2 ^ 29, 14913081 / 2 ^ 27, 14913081 / 2 ^ 29]"
  by (simp add: weights_def w0_def w1_def w2_def round_eval)

lemma ex_values: "ex = map Num [0, 0, 1, 1, 1, 0, -1, -1, -1]"
  by (simp add: ex_def round_eval)

lemma ey_values: "ey = map Num [0, 1, 1, 0, -1, -1, -1, 0, 1]"
  by (simp add: ey_def round_eval)

section \<open>Equilibrium\<close>






section \<open>Lists and comparisons\<close>

lemma js_lt_NaN [simp]: "js_lt x NaN = False"
  by (cases x) simp_all

lemma list_all_update:
  "list_all P (map snd al) \<Longrightarrow> P v \<Longrightarrow> list_all P (map snd (AList.update k v al))"
  by (induction al) auto

lemma list_all_lookup:
  "list_all P (map snd al) \<Longrightarrow> map_of al k = Some v \<Longrightarrow> P v"
  by (fastforce simp: list_all_iff dest: map_of_SomeD)

section \<open>The zero-velocity equilibrium\<close>







section \<open>Velocity at a density that is not positive\<close>

lemma velocity_sums_density: "fst (velocity_sums f) = getDensity f"
  by (simp add: velocity_sums_def getDensity_def upt_0_9 del: js_add.simps js_mul.simps)

text \<open>\<open>getVelocity\<close> returns \<open>[0, 0]\<close> at every density that is not positive.\<close>

lemma getVelocity_nonpositive:
  assumes "getDensity f = Num rho" and "rho \<le> 0"
  shows "getVelocity f = (Num 0, Num 0)"
proof -
  have "fst (velocity_sums f) = Num rho"
    using assms(1) by (simp add: velocity_sums_density)
  then show ?thesis
    using assms(2) by (cases "velocity_sums f") (simp add: getVelocity_def round_eval)
qed


section \<open>The two parameterisations of the collision\<close>

lemma js_div_as_mul: "t \<noteq> 0 \<Longrightarrow> js_div d (Num t) = js_mul (Num (1 / t)) d"
  by (cases d) (auto simp: field_simps)

text \<open>
  C6. The claim is that \<open>collision\<close> with \<open>tau\<close> and \<open>fastCollision\<close> with
  \<open>omega = 1 / tau\<close> give identical distributions. In the code they do when the quotient
  \<open>1 / tau\<close> is exact, that is, when the double that \<open>1 / tau\<close> evaluates to is the real
  \<open>1 / tau\<close> (a \<open>tau\<close> that is a power of two, such as the solver's 1): then
  multiplying by it and dividing by \<open>tau\<close> round the same exact number.
\<close>

theorem collision_parameterisations_agree:
  assumes "t \<noteq> 0" and "js_div (Num 1) (Num t) = Num (1 / t)"
  shows "fastCollision f feq (js_div (Num 1) (Num t)) = collision f feq (Num t)"
  unfolding fastCollision_def collision_def assms(2)
  by (simp only: js_div_as_mul [OF assms(1)])

text \<open>\<open>tau = 2\<close> and \<open>tau = 1\<close>, on the distribution \<open>[1, 0, ..., 0]\<close> and the weights.\<close>

theorem collision_parameterisations_agree_witness:
  "fastCollision (map Num [1, 0, 0, 0, 0, 0, 0, 0, 0]) weights (js_div (Num 1) (Num 2))
   = collision (map Num [1, 0, 0, 0, 0, 0, 0, 0, 0]) weights (Num 2)
   \<and> fastCollision (map Num [1, 0, 0, 0, 0, 0, 0, 0, 0]) weights (js_div (Num 1) (Num 1))
   = collision (map Num [1, 0, 0, 0, 0, 0, 0, 0, 0]) weights (Num 1)"
proof -
  have "(2::real) \<noteq> 0" and "js_div (Num 1) (Num 2) = Num (1 / 2)"
    and "(1::real) \<noteq> 0" and "js_div (Num 1) (Num 1) = Num (1 / 1)"
    by (simp_all add: round_eval)
  from collision_parameterisations_agree [OF this(1,2)] collision_parameterisations_agree [OF this(3,4)]
  show ?thesis by blast
qed

text \<open>
  For \<open>tau = 6755399843708953 / 2^52\<close> (1.5000000894069727), on the component 1 with the
  equilibrium component 0.25, \<open>collision\<close> stores 0.5 and \<open>fastCollision\<close> with
  \<open>omega = 1 / tau\<close> stores \<open>8388609 / 2^24\<close> (0.5000000596046448).
\<close>

theorem collision_rounding_counterexample:
  "elem (collision (map Num [1, 0, 0, 0, 0, 0, 0, 0, 0]) (map Num [1 / 4, 0, 0, 0, 0, 0, 0, 0, 0])
          (Num (6755399843708953 / 2 ^ 52))) 0 = Num (1 / 2)
   \<and> elem (fastCollision (map Num [1, 0, 0, 0, 0, 0, 0, 0, 0]) (map Num [1 / 4, 0, 0, 0, 0, 0, 0, 0, 0])
          (js_div (Num 1) (Num (6755399843708953 / 2 ^ 52)))) 0 = Num (8388609 / 2 ^ 24)
   \<and> collision (map Num [1, 0, 0, 0, 0, 0, 0, 0, 0]) (map Num [1 / 4, 0, 0, 0, 0, 0, 0, 0, 0])
          (Num (6755399843708953 / 2 ^ 52))
     \<noteq> fastCollision (map Num [1, 0, 0, 0, 0, 0, 0, 0, 0]) (map Num [1 / 4, 0, 0, 0, 0, 0, 0, 0, 0])
          (js_div (Num 1) (Num (6755399843708953 / 2 ^ 52)))"
proof -
  have c: "collision (map Num [1, 0, 0, 0, 0, 0, 0, 0, 0]) (map Num [1 / 4, 0, 0, 0, 0, 0, 0, 0, 0])
          (Num (6755399843708953 / 2 ^ 52)) = map Num [1 / 2, 0, 0, 0, 0, 0, 0, 0, 0]"
    by (simp add: collision_def upt_0_9 elem_def js_sub_def round_eval)
  have f: "fastCollision (map Num [1, 0, 0, 0, 0, 0, 0, 0, 0]) (map Num [1 / 4, 0, 0, 0, 0, 0, 0, 0, 0])
          (js_div (Num 1) (Num (6755399843708953 / 2 ^ 52))) = map Num [8388609 / 2 ^ 24, 0, 0, 0, 0, 0, 0, 0, 0]"
    by (simp add: fastCollision_def upt_0_9 elem_def js_sub_def round_eval)
  show ?thesis unfolding c f by (simp add: elem_def)
qed

section \<open>Rounding errors of the collision\<close>

























section \<open>Direction reversal\<close>

text \<open>\<open>reverseDir\<close>, which nothing calls, returns \<open>undefined\<close> for every direction.\<close>

lemma reverseDir_returns_undefined: "reverseDir dir = Undefined"
  by (simp add: reverseDir_def number_property_def)

text \<open>
  C7. The reversal that bounce-back uses is the table of components in the array literal
  of \<open>bouncebackObstacles\<close>. It maps each of the nine directions to its opposite: rest to
  rest, N to S, E to W, NE to SW, SE to NW, and back; it is an involution on the nine
  directions, and the velocity \<open>(ex, ey)\<close> of the image of a direction is the negated
  velocity of the direction.
\<close>

theorem bounce_back_reverses_directions:
  "bounce_component CellDirection_none = CellDirection_none
   \<and> bounce_component CellDirection_N = CellDirection_S
   \<and> bounce_component CellDirection_S = CellDirection_N
   \<and> bounce_component CellDirection_E = CellDirection_W
   \<and> bounce_component CellDirection_W = CellDirection_E
   \<and> bounce_component CellDirection_NE = CellDirection_SW
   \<and> bounce_component CellDirection_SW = CellDirection_NE
   \<and> bounce_component CellDirection_SE = CellDirection_NW
   \<and> bounce_component CellDirection_NW = CellDirection_SE
   \<and> list_all (\<lambda>i. bounce_component i < 9 \<and> bounce_component (bounce_component i) = i) [0..<9]
   \<and> list_all (\<lambda>i. elem ex (bounce_component i) = js_neg (elem ex i)
                  \<and> elem ey (bounce_component i) = js_neg (elem ey i)) [0..<9]"
  by (simp add: bounce_component_def CellDirection_none_def CellDirection_N_def CellDirection_NE_def
      CellDirection_E_def CellDirection_SE_def CellDirection_S_def CellDirection_SW_def
      CellDirection_W_def CellDirection_NW_def upt_0_9 ex_values ey_values elem_def)

section \<open>Streaming\<close>

lemma sweep_bound_NaN: "sweep_bound l = NaN"
  by (simp add: sweep_bound_def lattice_length_def js_sub_def)

lemma js_for_NaN: "js_for x NaN body a = Some (Inr a)"
  by (subst js_for.simps) simp

lemma bouncebackObstacles_skips: "bouncebackObstacles latticeSrc latticeDest s = Some (Inr s)"
  by (simp add: bouncebackObstacles_def sweep_bound_NaN js_for_NaN)

lemma propagate_id: "propagate a b s = Some (Inr s)"
  by (simp add: propagate_def sweep_bound_NaN js_for_NaN bouncebackObstacles_skips)

text \<open>
  C1. The claim is that a streaming sweep writes, into every direction of every interior
  cell of the next buffer, the value pulled from the upstream neighbour in the current
  buffer. In the code the bound of both loops of \<open>propagate\<close> and of
  \<open>bouncebackObstacles\<close> is \<open>NaN\<close>, no iteration runs, and the sweep returns the store as it
  was: nothing is written.
\<close>

theorem propagate_writes_nothing: "propagate latticeSrc latticeDest s = Some (Inr s)"
  by (simp add: propagate_def sweep_bound_NaN js_for_NaN bouncebackObstacles_skips)

section \<open>The two buffers\<close>

lemma cells_get_set: "cells_get (cells_set m k c s) m k = Some c"
  by (simp add: cells_get_def cells_set_def update_conv')

text \<open>
  C4. The claim is that the two buffers do not share cell storage. In the code the ghost
  lattice is a shallow copy of the lattice: both hold the address of the same \<open>Map\<close>, and
  a cell stored through one is what the other reads at that key.
\<close>

theorem ghost_shares_cell_storage:
  "cells (GHOST_LATTICE rnd) = cells (LATTICE rnd)
   \<and> cells_get (cells_set (cells (LATTICE rnd)) k c s) (cells (GHOST_LATTICE rnd)) k = Some c"
  by (simp add: GHOST_LATTICE_def object_assign_def cells_get_set)

section \<open>The step preserves the density arrays\<close>

lemma has_densities_cells_set:
  "has_densities s \<Longrightarrow> (ctype c = ''fluid'' \<longrightarrow> density c \<noteq> None) \<Longrightarrow> has_densities (cells_set m k c s)"
  by (auto simp: has_densities_def cells_set_def update_conv' split: if_splits)

lemma has_densities_arrays [simp]: "has_densities (s\<lparr>arrays := a\<rparr>) = has_densities s"
  and has_densities_isGhost [simp]: "has_densities (s\<lparr>isGhost := b\<rparr>) = has_densities s"
  and has_densities_omega [simp]: "has_densities (s\<lparr>omega := w\<rparr>) = has_densities s"
  and has_densities_next_ref [simp]: "has_densities (s\<lparr>next_ref := n\<rparr>) = has_densities s"
  by (simp_all add: has_densities_def)

lemma cells_set_fields [simp]:
  "arrays (cells_set m k c s) = arrays s"
  "omega (cells_set m k c s) = omega s"
  "isGhost (cells_set m k c s) = isGhost s"
  "next_ref (cells_set m k c s) = next_ref s"
  by (simp_all add: cells_set_def)

lemma maps_cells_set:
  "maps (cells_set m k c s) m' = (if m' = m then AList.update k c (maps s m) else maps s m')"
  by (simp add: cells_set_def)

lemma collide_cell_has_densities:
  assumes "has_densities s"
  shows "\<exists>s'. collide_cell lat cur x y s = Inr s' \<and> has_densities s' \<and> omega s' = omega s"
proof (cases "cells_get s (cells cur) (cell_key (Num (real x)) (Num (real y)))")
  case None
  then show ?thesis using assms by (simp add: collide_cell_def)
next
  case (Some c)
  show ?thesis
  proof (cases "ctype c = ''fluid''")
    case False
    then show ?thesis using Some assms by (simp add: collide_cell_def)
  next
    case True
    have "density c \<noteq> None"
      using assms Some True unfolding has_densities_def cells_get_def by blast
    then obtain d where d: "density c = Some d"
      by (cases "density c") auto
    show ?thesis
      using Some True d assms by (simp add: collide_cell_def Let_def has_densities_cells_set)
  qed
qed

lemma frame_step_has_densities:
  assumes "has_densities s"
  shows "\<exists>s' cur'. frame_step lat ghost x y (s, cur) = Some (Inr (s', cur')) \<and> has_densities s' \<and> omega s' = omega s"
proof -
  let ?cur = "if isGhost s then ghost else lat"
  let ?s2 = "s\<lparr>isGhost := \<not> isGhost s\<rparr>"
  have "has_densities ?s2" using assms by simp
  from collide_cell_has_densities [OF this, of lat ?cur x y]
  obtain s' where "collide_cell lat ?cur x y ?s2 = Inr s'" "has_densities s'" "omega s' = omega s"
    by auto
  then show ?thesis
    by (cases "isGhost s") (simp_all add: frame_step_def propagate_id Let_def)
qed

lemma for_each_invariant:
  assumes "P a"
    and "\<And>i a. i \<in> set xs \<Longrightarrow> P a \<Longrightarrow> \<exists>a'. body i a = Some (Inr a') \<and> P a'"
  shows "\<exists>a'. for_each xs body a = Some (Inr a') \<and> P a'"
  using assms
proof (induction xs arbitrary: a)
  case Nil
  then show ?case by simp
next
  case (Cons i xs)
  from Cons.prems obtain a1 where a1: "body i a = Some (Inr a1)" "P a1"
    by (meson list.set_intros(1))
  have "\<exists>a'. for_each xs body a1 = Some (Inr a') \<and> P a'"
    by (rule Cons.IH [OF a1(2)]) (simp add: Cons.prems(2))
  then show ?case using a1 by simp
qed

lemma collideAndStream_has_densities:
  assumes "has_densities s" and "omega s = w"
  shows "\<exists>s' cur'. collideAndStream lat ghost s = Some (Inr (s', cur')) \<and> has_densities s' \<and> omega s' = w"
proof -
  let ?P = "\<lambda>a. has_densities (fst a) \<and> omega (fst a) = w"
  have step: "\<exists>a'. frame_step lat ghost x y a = Some (Inr a') \<and> ?P a'" if "?P a" for x y a
    using frame_step_has_densities [of "fst a" lat ghost x y "snd a"] that by auto
  have inner: "\<exists>a'. for_each [0..<STEPS_IN_FRAME] (\<lambda>i. frame_step lat ghost x y) a = Some (Inr a') \<and> ?P a'"
    if "?P a" for x y a
    by (rule for_each_invariant [where P = ?P, OF that]) (rule step)
  have mid: "\<exists>a'. for_each [0..<cols] (\<lambda>x. for_each [0..<STEPS_IN_FRAME] (\<lambda>i. frame_step lat ghost x y)) a
               = Some (Inr a') \<and> ?P a'"
    if "?P a" for y a
    by (rule for_each_invariant [where P = ?P, OF that]) (rule inner)
  have "\<exists>a'. collideAndStream lat ghost s = Some (Inr a') \<and> ?P a'"
    unfolding collideAndStream_def
    by (rule for_each_invariant [where P = ?P]) (use assms mid in auto)
  then show ?thesis by auto
qed

lemma simulate_loop:
  assumes "has_densities s"
  shows "\<exists>s'. for_each xs
           (\<lambda>t acc. case acc of (s1, processed) \<Rightarrow>
                  (case collideAndStream lat ghost s1 of
                     None \<Rightarrow> None
                   | Some (Inl e) \<Rightarrow> Some (Inl e)
                   | Some (Inr (s2, current)) \<Rightarrow> Some (Inr (s2, processed + rows * cols))))
           (s, n) = Some (Inr (s', n + length xs * (rows * cols))) \<and> has_densities s'"
  using assms
proof (induction xs arbitrary: s n)
  case Nil
  then show ?case by simp
next
  case (Cons t xs)
  from collideAndStream_has_densities [OF Cons.prems refl, of lat ghost]
  obtain s1 cur where s1: "collideAndStream lat ghost s = Some (Inr (s1, cur))" "has_densities s1"
    by blast
  from Cons.IH [OF s1(2), of "n + rows * cols"] s1(1)
  show ?case by (simp add: algebra_simps)
qed

lemma simulate_returns:
  "has_densities s \<Longrightarrow> \<exists>s'. simulate lat ghost s = Some (Inr (s', T_MAX * (rows * cols)))"
  unfolding simulate_def using simulate_loop [of s "[0..<T_MAX]" lat ghost 0] by auto

lemma has_densities_empty: "has_densities empty_state"
  by (simp add: has_densities_def empty_state_def)

lemma has_densities_new_Map: "has_densities s \<Longrightarrow> has_densities (snd (new_Map s))"
  by (auto simp: has_densities_def new_Map_def)

lemma has_densities_init_cell: "has_densities s \<Longrightarrow> has_densities (init_cell m y x s)"
  by (simp add: init_cell_def new_Float32Array_def has_densities_cells_set fluid_cell_def)

lemma has_densities_place_solid: "has_densities (fst acc) \<Longrightarrow> has_densities (fst (place_solid rnd m i acc))"
  by (cases acc) (simp add: place_solid_def Let_def has_densities_cells_set solid_cell_def)

lemma has_densities_initLattice: "has_densities s \<Longrightarrow> has_densities (snd (initLattice rnd s))"
proof -
  assume s: "has_densities s"
  obtain m s1 where n: "new_Map s = (m, s1)" by (cases "new_Map s")
  with has_densities_new_Map [OF s] have s1: "has_densities s1" by simp
  let ?s2 = "fold (\<lambda>y. fold (\<lambda>x. init_cell m y x) [0..<cols]) [0..<rows] s1"
  have s2: "has_densities ?s2"
    by (rule fold_invariant [where Q = "\<lambda>_. True" and P = has_densities])
       (auto intro: s1 fold_invariant [where Q = "\<lambda>_. True" and P = has_densities] has_densities_init_cell)
  obtain s3 indices where f: "fold (place_solid rnd m) [0..<100] (?s2, []) = (s3, indices)"
    by (cases "fold (place_solid rnd m) [0..<100] (?s2, [])")
  have "has_densities (fst (fold (place_solid rnd m) [0..<100] (?s2, [])))"
    by (rule fold_invariant [where Q = "\<lambda>_. True" and P = "\<lambda>a. has_densities (fst a)"])
       (auto intro: s2 has_densities_place_solid)
  then show ?thesis
    by (simp add: initLattice_def n Let_def f)
qed

text \<open>
  C5, as it holds. The code checks no configuration: whatever the value of \<open>omega\<close>,
  \<open>simulate\<close> on the module's two lattices returns after all of its \<open>T_MAX\<close> steps, having
  counted \<open>T_MAX * rows * cols\<close> updates, and throws nothing.
\<close>

theorem simulate_accepts_every_omega:
  "\<exists>s'. simulate (LATTICE rnd) (GHOST_LATTICE rnd) ((module_state rnd)\<lparr>omega := w\<rparr>)
         = Some (Inr (s', T_MAX * (rows * cols)))"
  by (rule simulate_returns) (simp add: module_state_def has_densities_initLattice has_densities_empty)

text \<open>
  With \<open>omega = 2.5\<close> (and \<open>Math.random\<close> returning 0 at every call) \<open>simulate\<close> returns
  and does not throw.
\<close>

theorem omega_out_of_range_counterexample:
  "returns (simulate (LATTICE (\<lambda>k. 0)) (GHOST_LATTICE (\<lambda>k. 0)) ((module_state (\<lambda>k. 0))\<lparr>omega := Num (5 / 2)\<rparr>))
   \<and> \<not> throws (simulate (LATTICE (\<lambda>k. 0)) (GHOST_LATTICE (\<lambda>k. 0)) ((module_state (\<lambda>k. 0))\<lparr>omega := Num (5 / 2)\<rparr>))"
proof -
  have "has_densities ((module_state (\<lambda>k. 0))\<lparr>omega := Num (5 / 2)\<rparr>)"
    by (simp add: module_state_def has_densities_initLattice has_densities_empty)
  from simulate_returns [OF this, of "LATTICE (\<lambda>k. 0)" "GHOST_LATTICE (\<lambda>k. 0)"]
  show ?thesis by (auto simp: returns_def throws_def)
qed

section \<open>Initialisation\<close>

lemma fluidNodesLength_filter:
  "fluidNodesLength cs = length (filter (\<lambda>c. ctype c = ''fluid'') cs)"
  by (simp add: fluidNodesLength_def Let_def)

lemma solidNodesLength_filter:
  "solidNodesLength cs = length (filter (\<lambda>c. ctype c = ''solid'') cs)"
  by (simp add: solidNodesLength_def Let_def)

lemma node_counts:
  "list_all typed_cell cs \<Longrightarrow> fluidNodesLength cs + solidNodesLength cs = length cs"
  unfolding fluidNodesLength_filter solidNodesLength_filter
  by (induction cs) (auto simp: typed_cell_def)

lemma typed_map_cells_set:
  "typed_map s m \<Longrightarrow> typed_cell c \<Longrightarrow> typed_map (cells_set m k c s) m"
  by (simp add: typed_map_def cell_values_def maps_cells_set distinct_update list_all_update)

lemma keys_of_cells_set: "keys_of (cells_set m k c s) m = insert k (keys_of s m)"
  by (simp add: keys_of_def maps_cells_set dom_update)

lemma typed_map_init_cell: "typed_map s m \<Longrightarrow> typed_map (init_cell m y x s) m"
  by (simp add: init_cell_def new_Float32Array_def typed_map_def cell_values_def maps_cells_set
      distinct_update list_all_update typed_cell_def fluid_cell_def)

lemma keys_of_init_cell:
  "keys_of (init_cell m y x s) m = insert (cell_key (Num (real x)) (Num (real y))) (keys_of s m)"
  by (simp add: init_cell_def new_Float32Array_def keys_of_def maps_cells_set dom_update)

lemma init_row:
  "typed_map s m \<Longrightarrow>
   typed_map (fold (init_cell m y) xs s) m \<and>
   keys_of (fold (init_cell m y) xs s) m =
     keys_of s m \<union> (\<lambda>x. cell_key (Num (real x)) (Num (real y))) ` set xs"
proof (induction xs arbitrary: s)
  case Nil
  then show ?case by simp
next
  case (Cons x xs)
  have "typed_map (init_cell m y x s) m"
    by (rule typed_map_init_cell [OF Cons.prems])
  from Cons.IH [OF this] show ?case
    by (auto simp: keys_of_init_cell)
qed

lemma init_rows:
  "typed_map s m \<Longrightarrow>
   typed_map (fold (\<lambda>y. fold (init_cell m y) xs) ys s) m \<and>
   keys_of (fold (\<lambda>y. fold (init_cell m y) xs) ys s) m =
     keys_of s m \<union> (\<lambda>(x, y). cell_key (Num (real x)) (Num (real y))) ` (set xs \<times> set ys)"
proof (induction ys arbitrary: s)
  case Nil
  then show ?case by simp
next
  case (Cons y ys)
  from init_row [OF Cons.prems, of y xs]
  have t: "typed_map (fold (init_cell m y) xs s) m"
    and k: "keys_of (fold (init_cell m y) xs s) m =
            keys_of s m \<union> (\<lambda>x. cell_key (Num (real x)) (Num (real y))) ` set xs"
    by auto
  from Cons.IH [OF t] k show ?case by auto
qed

lemma card_grid_keys: "card grid_keys = cols * rows"
proof -
  have "inj_on (\<lambda>(x, y). cell_key (Num (real x)) (Num (real y))) ({0..<cols} \<times> {0..<rows})"
    by (auto simp: inj_on_def cell_key_def)
  then show ?thesis
    by (simp add: grid_keys_def card_image)
qed

lemma random_index_range:
  assumes "0 \<le> r" and "r < 1" and "0 < n"
  shows "\<exists>i < n. random_index r n = Num (real i)"
proof -
  have lo: "0 \<le> \<lfloor>r * real n\<rfloor>" using assms by simp
  have "r * real n < real n" using assms by simp
  then have hi: "\<lfloor>r * real n\<rfloor> < int n" by linarith
  have "nat \<lfloor>r * real n\<rfloor> < n" using lo hi by linarith
  moreover have "random_index r n = Num (real (nat \<lfloor>r * real n\<rfloor>))"
    using lo by (simp add: random_index_def)
  ultimately show ?thesis by blast
qed

lemma place_solid_grid:
  assumes rnd: "\<forall>k. 0 \<le> rnd k \<and> rnd k < 1"
    and inv: "typed_map (fst acc) m \<and> keys_of (fst acc) m = grid_keys"
  shows "typed_map (fst (place_solid rnd m i acc)) m \<and> keys_of (fst (place_solid rnd m i acc)) m = grid_keys"
proof -
  obtain s indices where acc: "acc = (s, indices)" by (cases acc)
  from rnd obtain x where x: "x < cols" "random_index (rnd (2 * i)) cols = Num (real x)"
    using random_index_range [of "rnd (2 * i)" cols] by (auto simp: cols_def)
  from rnd obtain y where y: "y < rows" "random_index (rnd (2 * i + 1)) rows = Num (real y)"
    using random_index_range [of "rnd (2 * i + 1)" rows] by (auto simp: rows_def)
  have "cell_key (Num (real x)) (Num (real y)) \<in> grid_keys"
    using x(1) y(1) by (auto simp: grid_keys_def)
  then have "insert (cell_key (Num (real x)) (Num (real y))) grid_keys = grid_keys"
    by auto
  moreover have "typed_cell (solid_cell (Num (real x)) (Num (real y)))"
    by (simp add: typed_cell_def solid_cell_def)
  ultimately show ?thesis
    using inv x(2) y(2)
    by (simp add: acc place_solid_def Let_def typed_map_cells_set keys_of_cells_set)
qed

lemma initLattice_grid:
  assumes rnd: "\<forall>k. 0 \<le> rnd k \<and> rnd k < 1"
  shows "typed_map (snd (initLattice rnd s)) (cells (fst (initLattice rnd s)))
       \<and> keys_of (snd (initLattice rnd s)) (cells (fst (initLattice rnd s))) = grid_keys
       \<and> nx (fst (initLattice rnd s)) = cols \<and> ny (fst (initLattice rnd s)) = rows"
proof -
  obtain m s1 where n: "new_Map s = (m, s1)" by (cases "new_Map s")
  then have t1: "typed_map s1 m" and k1: "keys_of s1 m = {}"
    by (auto simp: typed_map_def keys_of_def new_Map_def cell_values_def)
  let ?m = m
  let ?s2 = "fold (\<lambda>y. fold (init_cell ?m y) [0..<cols]) [0..<rows] s1"
  from init_rows [OF t1, of "[0..<cols]" "[0..<rows]"] k1
  have i2: "typed_map ?s2 ?m \<and> keys_of ?s2 ?m = grid_keys"
    by (simp add: grid_keys_def)
  obtain s3 indices where f: "fold (place_solid rnd ?m) [0..<100] (?s2, []) = (s3, indices)"
    by (cases "fold (place_solid rnd ?m) [0..<100] (?s2, [])")
  have "typed_map (fst (fold (place_solid rnd ?m) [0..<100] (?s2, []))) ?m
      \<and> keys_of (fst (fold (place_solid rnd ?m) [0..<100] (?s2, []))) ?m = grid_keys"
    by (rule fold_invariant [where Q = "\<lambda>_. True"
          and P = "\<lambda>a. typed_map (fst a) ?m \<and> keys_of (fst a) ?m = grid_keys"])
       (use i2 place_solid_grid [OF rnd] in auto)
  then show ?thesis
    by (simp add: initLattice_def n Let_def f)
qed

text \<open>
  C10. When every call of \<open>Math.random\<close> returns a number of \<open>[0, 1)\<close>, every cell of the
  lattice that \<open>initLattice\<close> returns is of type fluid or solid, and the number of fluid
  nodes plus the number of solid nodes is \<open>nx * ny\<close>.
\<close>

theorem initLattice_node_counts:
  assumes "\<forall>k. 0 \<le> rnd k \<and> rnd k < 1"
  shows "list_all typed_cell (cell_values (snd (initLattice rnd s)) (cells (fst (initLattice rnd s))))
       \<and> fluidNodesLength (cell_values (snd (initLattice rnd s)) (cells (fst (initLattice rnd s))))
         + solidNodesLength (cell_values (snd (initLattice rnd s)) (cells (fst (initLattice rnd s))))
         = nx (fst (initLattice rnd s)) * ny (fst (initLattice rnd s))"
proof -
  let ?s = "snd (initLattice rnd s)" and ?m = "cells (fst (initLattice rnd s))"
  from initLattice_grid [OF assms, of s]
  have t: "typed_map ?s ?m" and k: "keys_of ?s ?m = grid_keys"
    and d: "nx (fst (initLattice rnd s)) = cols" "ny (fst (initLattice rnd s)) = rows"
    by auto
  have "length (cell_values ?s ?m) = length (map fst (maps ?s ?m))"
    by (simp add: cell_values_def)
  also have "\<dots> = card (set (map fst (maps ?s ?m)))"
    using t distinct_card [of "map fst (maps ?s ?m)"] by (simp add: typed_map_def)
  also have "\<dots> = cols * rows"
    using k by (simp add: keys_of_def card_grid_keys)
  finally have "length (cell_values ?s ?m) = cols * rows" .
  with node_counts [of "cell_values ?s ?m"] t d show ?thesis
    by (simp add: typed_map_def)
qed

theorem initLattice_node_counts_witness:
  "fluidNodesLength (cell_values (module_state (\<lambda>k. 1 / 2)) (cells (LATTICE (\<lambda>k. 1 / 2))))
   + solidNodesLength (cell_values (module_state (\<lambda>k. 1 / 2)) (cells (LATTICE (\<lambda>k. 1 / 2))))
   = 1200"
proof -
  have "\<forall>k::nat. (0::real) \<le> 1 / 2 \<and> (1 / 2 :: real) < 1" by simp
  from initLattice_node_counts [OF this, of empty_state]
  have "fluidNodesLength (cell_values (module_state (\<lambda>k. 1 / 2)) (cells (LATTICE (\<lambda>k. 1 / 2))))
   + solidNodesLength (cell_values (module_state (\<lambda>k. 1 / 2)) (cells (LATTICE (\<lambda>k. 1 / 2))))
   = nx (LATTICE (\<lambda>k. 1 / 2)) * ny (LATTICE (\<lambda>k. 1 / 2))"
    by (simp add: module_state_def LATTICE_def)
  moreover have "nx (LATTICE (\<lambda>k. 1 / 2)) = 60" "ny (LATTICE (\<lambda>k. 1 / 2)) = 20"
    by (simp_all add: LATTICE_def initLattice_def Let_def cols_def rows_def split: prod.splits)
  ultimately show ?thesis by simp
qed

section \<open>A lattice at rest\<close>

lemma getDensity_weights: "getDensity weights = Num (1 + 1 / 2 ^ 27)"
  by (simp add: weights_values getDensity_def upt_0_9 elem_def round_eval)

lemma getVelocity_weights: "getVelocity weights = (Num 0, Num 0)"
  by (simp add: weights_values ex_values ey_values getVelocity_def velocity_sums_def upt_0_9 elem_def
      round_eval)

lemma equilibrium_weights: "equilibrium weights Undefined Undefined = weights"
  by (simp add: weights_values ex_values ey_values equilibrium_def equilibrium_velocity_def
      equilibrium_density_def equilibrium_moments_def feq_of_def js_gt_def upt_0_9 upt_1_9 elem_def
      round_eval)

lemma collision_weights: "collision weights weights (Num 1) = weights"
  by (simp add: weights_values collision_def upt_0_9 elem_def js_sub_def round_eval)

lemma rest_cell_density: "rest_cell s c \<Longrightarrow> density_at_rest s c"
  by (auto simp: rest_cell_def density_at_rest_def getDensity_weights getVelocity_weights
      within_tolerance_def split: option.splits)

lemma rest_cell_arrays: "arrays s' = arrays s \<Longrightarrow> rest_cell s' = rest_cell s"
  by (rule ext) (simp add: rest_cell_def split: option.splits)

lemma rest_lattice_isGhost [simp]: "rest_lattice (s\<lparr>isGhost := b\<rparr>) l = rest_lattice s l"
  by (simp add: rest_lattice_def cell_values_def rest_cell_arrays [of "s\<lparr>isGhost := b\<rparr>" s])

lemma length_alist_update: "length al \<le> length (AList.update k v al)"
  by (induction al) auto

lemma length_cells_set: "length (maps s m') \<le> length (maps (cells_set m k c s) m')"
  by (simp add: maps_cells_set length_alist_update)

lemma collide_cell_rest:
  assumes w: "omega s = Num 1" and lat: "rest_lattice s lat" and ghost: "rest_lattice s ghost"
    and cur: "cur = lat \<or> cur = ghost"
  shows "\<exists>s'. collide_cell lat cur x y s = Inr s' \<and> omega s' = Num 1
              \<and> rest_lattice s' lat \<and> rest_lattice s' ghost
              \<and> length (maps s (cells lat)) \<le> length (maps s' (cells lat))"
proof (cases "cells_get s (cells cur) (cell_key (Num (real x)) (Num (real y)))")
  case None
  then show ?thesis using assms by (simp add: collide_cell_def)
next
  case (Some c)
  let ?k = "cell_key (Num (real x)) (Num (real y))"
  have "rest_lattice s cur" using lat ghost cur by auto
  then have c: "rest_cell s c"
    using Some unfolding rest_lattice_def cell_values_def cells_get_def by (rule list_all_lookup)
  then obtain d where d: "density c = Some d" "arrays s d = weights"
    and t: "ctype c = ''fluid''" and v: "velocity c = (Num 0, Num 0)"
    by (auto simp: rest_cell_def split: option.splits)
  let ?c' = "c\<lparr>density := Some d, velocity := (Num 0, Num 0)\<rparr>"
  have same: "s\<lparr>arrays := (arrays s)(d := weights)\<rparr> = s"
    using d(2) by (simp add: fun_upd_idem)
  have c': "rest_cell s ?c'"
    using c d by (simp add: rest_cell_def)
  have step: "collide_cell lat cur x y s = Inr (cells_set (cells lat) ?k ?c' s)"
    using Some t d w
    by (simp add: collide_cell_def Let_def equilibrium_weights collision_weights
        getVelocity_weights same)
  have keep: "rest_lattice (cells_set (cells lat) ?k ?c' s) l" if "rest_lattice s l" for l
  proof -
    have eq: "rest_cell (cells_set (cells lat) ?k ?c' s) = rest_cell s"
      by (rule rest_cell_arrays) simp
    show ?thesis
      using that c'
      by (auto simp: rest_lattice_def cell_values_def eq maps_cells_set intro: list_all_update)
  qed
  show ?thesis
    using step w keep [OF lat] keep [OF ghost] length_cells_set [of s "cells lat" "cells lat" ?k ?c']
    by simp
qed

lemma frame_step_rest:
  assumes "omega s = Num 1" and "rest_lattice s lat" and "rest_lattice s ghost"
  shows "\<exists>s' cur'. frame_step lat ghost x y (s, cur) = Some (Inr (s', cur'))
           \<and> omega s' = Num 1 \<and> rest_lattice s' lat \<and> rest_lattice s' ghost
           \<and> (cur' = lat \<or> cur' = ghost)
           \<and> length (maps s (cells lat)) \<le> length (maps s' (cells lat))"
proof -
  let ?cur = "if isGhost s then ghost else lat"
  let ?s2 = "s\<lparr>isGhost := \<not> isGhost s\<rparr>"
  have "omega ?s2 = Num 1" "rest_lattice ?s2 lat" "rest_lattice ?s2 ghost" "?cur = lat \<or> ?cur = ghost"
    using assms by simp_all
  from collide_cell_rest [OF this, of x y]
  obtain s' where "collide_cell lat ?cur x y ?s2 = Inr s'" "omega s' = Num 1"
    "rest_lattice s' lat" "rest_lattice s' ghost"
    "length (maps ?s2 (cells lat)) \<le> length (maps s' (cells lat))"
    by auto
  then show ?thesis
    by (cases "isGhost s") (simp_all add: frame_step_def propagate_id Let_def)
qed

text \<open>
  One call of \<open>collideAndStream\<close> on a store in which both lattices are at rest, with
  \<open>omega = 1\<close>: it returns, both lattices are at rest again, and their \<open>Map\<close> has lost no
  cell.
\<close>

lemma collideAndStream_rest:
  assumes "omega s = Num 1" and "rest_lattice s lat" and "rest_lattice s ghost"
  shows "\<exists>s' current. collideAndStream lat ghost s = Some (Inr (s', current))
           \<and> rest_lattice s' lat \<and> rest_lattice s' ghost \<and> (current = lat \<or> current = ghost)
           \<and> length (maps s (cells lat)) \<le> length (maps s' (cells lat))"
proof -
  let ?P = "\<lambda>a. omega (fst a) = Num 1 \<and> rest_lattice (fst a) lat \<and> rest_lattice (fst a) ghost
                \<and> (snd a = lat \<or> snd a = ghost)
                \<and> length (maps s (cells lat)) \<le> length (maps (fst a) (cells lat))"
  have step: "\<exists>a'. frame_step lat ghost x y a = Some (Inr a') \<and> ?P a'" if "?P a" for x y a
    using frame_step_rest [of "fst a" lat ghost x y "snd a"] that by fastforce
  have inner: "\<exists>a'. for_each [0..<STEPS_IN_FRAME] (\<lambda>i. frame_step lat ghost x y) a = Some (Inr a') \<and> ?P a'"
    if "?P a" for x y a
    by (rule for_each_invariant [where P = ?P, OF that]) (rule step)
  have mid: "\<exists>a'. for_each [0..<cols] (\<lambda>x. for_each [0..<STEPS_IN_FRAME] (\<lambda>i. frame_step lat ghost x y)) a
               = Some (Inr a') \<and> ?P a'"
    if "?P a" for y a
    by (rule for_each_invariant [where P = ?P, OF that]) (rule inner)
  have "\<exists>a'. collideAndStream lat ghost s = Some (Inr a') \<and> ?P a'"
    unfolding collideAndStream_def
    by (rule for_each_invariant [where P = ?P]) (use assms mid in auto)
  then show ?thesis by auto
qed

subsection \<open>The lattice without obstacles\<close>

lemma rest_cell_new_array:
  "rest_cell s c \<Longrightarrow> rest_cell (snd (new_Float32Array weights s)) c"
  by (auto simp: rest_cell_def new_Float32Array_def split: option.splits)

lemma rest_lattice_init_cell:
  assumes "rest_lattice s l"
  shows "rest_lattice (init_cell m y x s) l"
proof -
  obtain d s1 where n: "new_Float32Array weights s = (d, s1)"
    by (cases "new_Float32Array weights s")
  then have s1: "s1 = snd (new_Float32Array weights s)" and d: "arrays s1 d = weights"
    and m: "maps s1 = maps s"
    by (auto simp: new_Float32Array_def)
  have keep: "rest_cell s1 c" if "rest_cell s c" for c
    using rest_cell_new_array [OF that] by (simp add: s1)
  have old: "list_all (rest_cell s1) (map snd (maps s1 (cells l)))"
    using assms unfolding rest_lattice_def cell_values_def m
    by (auto simp: list_all_iff intro: keep)
  have new: "rest_cell s1 (fluid_cell x y d)"
    using d by (simp add: rest_cell_def fluid_cell_def)
  let ?s2 = "cells_set m (cell_key (Num (real x)) (Num (real y))) (fluid_cell x y d) s1"
  have eq: "rest_cell ?s2 = rest_cell s1"
    by (rule rest_cell_arrays) simp
  have "rest_lattice ?s2 l"
    using old new
    by (auto simp: rest_lattice_def cell_values_def eq maps_cells_set intro: list_all_update)
  then show ?thesis by (simp add: init_cell_def n)
qed

lemma omega_init_cell [simp]: "omega (init_cell m y x s) = omega s"
  by (simp add: init_cell_def new_Float32Array_def split: prod.splits)

text \<open>\<open>initLattice\<close> is the second loop run on that lattice.\<close>

lemma initLattice_after_first_loop:
  "initLattice rnd s =
     (case initFluidLattice s of (l, s2) \<Rightarrow>
        case fold (place_solid rnd (cells l)) [0..<100] (s2, []) of (s3, indices) \<Rightarrow>
          (l\<lparr>solidNodesIndices := indices\<rparr>, s3))"
  by (simp add: initLattice_def initFluidLattice_def Let_def split: prod.splits)

lemma initFluidLattice_rest:
  "omega (snd (initFluidLattice empty_state)) = Num 1
   \<and> rest_lattice (snd (initFluidLattice empty_state)) (fst (initFluidLattice empty_state))
   \<and> rest_lattice (snd (initFluidLattice empty_state))
        (object_assign (fst (initFluidLattice empty_state)))
   \<and> length (maps (snd (initFluidLattice empty_state)) (cells (fst (initFluidLattice empty_state))))
       = 1200"
proof -
  obtain m s1 where n: "new_Map empty_state = (m, s1)" by (cases "new_Map empty_state")
  let ?l = "\<lparr>cells = m, solidNodesIndices = [], nx = cols, ny = rows\<rparr>"
  let ?s2 = "fold (\<lambda>y. fold (init_cell m y) [0..<cols]) [0..<rows] s1"
  let ?P = "\<lambda>s. omega s = Num 1 \<and> rest_lattice s ?l"
  have i: "initFluidLattice empty_state = (?l, ?s2)"
    by (simp add: initFluidLattice_def n)
  have p1: "?P s1"
    using n by (auto simp: new_Map_def empty_state_def rest_lattice_def cell_values_def)
  have row: "?P (fold (init_cell m y) xs s)" if "?P s" for y xs s
    by (rule fold_invariant [where Q = "\<lambda>_. True" and P = ?P])
       (use that in \<open>auto intro: rest_lattice_init_cell\<close>)
  have p2: "?P ?s2"
    by (rule fold_invariant [where Q = "\<lambda>_. True" and P = ?P]) (use p1 row in auto)
  have t1: "typed_map s1 m" and k1: "keys_of s1 m = {}"
    using n by (auto simp: typed_map_def keys_of_def new_Map_def cell_values_def empty_state_def)
  from init_rows [OF t1, of "[0..<cols]" "[0..<rows]"] k1
  have t2: "typed_map ?s2 m" and k2: "keys_of ?s2 m = grid_keys"
    by (simp_all add: grid_keys_def)
  have "length (maps ?s2 m) = length (map fst (maps ?s2 m))" by simp
  also have "\<dots> = card (set (map fst (maps ?s2 m)))"
    using t2 distinct_card [of "map fst (maps ?s2 m)"] by (simp add: typed_map_def)
  also have "\<dots> = 1200"
    using k2 by (simp add: keys_of_def card_grid_keys cols_def rows_def)
  finally have len: "length (maps ?s2 m) = 1200" .
  have "rest_lattice ?s2 (object_assign ?l)"
    using p2 by (simp add: rest_lattice_def object_assign_def)
  with p2 len show ?thesis by (simp add: i)
qed

text \<open>
  C9. The claim is that a lattice without obstacles at rest keeps density 1.0 and velocity
  \<open>(0, 0)\<close> over one step with \<open>omega = 1\<close> and no forcing. In the code the rest state is a
  fixed point and the velocity is \<open>(0, 0)\<close>, but the density read from a cell is the sum of
  the weights as the \<open>Float32Array\<close> holds them, \<open>1 + 2^-27\<close>, not 1.0. From a store in
  which both lattices are at rest, with \<open>omega = 1\<close>, one call of \<open>collideAndStream\<close>
  (which passes no forcing) returns; of every cell of the lattice, and of the lattice it
  returns, \<open>getDensity\<close> gives \<open>1 + 2^-27\<close>, which is within \<open>1e-6\<close> of 1, and the velocity
  is \<open>(0, 0)\<close>; and the lattice has lost no cell.
\<close>

theorem rest_state_is_kept:
  assumes "omega s = Num 1" and "rest_lattice s lat" and "rest_lattice s ghost"
  shows "\<exists>s' current. collideAndStream lat ghost s = Some (Inr (s', current))
           \<and> list_all (density_at_rest s') (cell_values s' (cells lat))
           \<and> list_all (density_at_rest s') (cell_values s' (cells current))
           \<and> length (cell_values s (cells lat)) \<le> length (cell_values s' (cells lat))"
proof -
  from collideAndStream_rest [OF assms]
  obtain s' current where r: "collideAndStream lat ghost s = Some (Inr (s', current))"
    and l: "rest_lattice s' lat" and g: "rest_lattice s' ghost" and c: "current = lat \<or> current = ghost"
    and n: "length (maps s (cells lat)) \<le> length (maps s' (cells lat))"
    by blast
  have "list_all (density_at_rest s') (cell_values s' (cells l))" if "rest_lattice s' l" for l
    using that unfolding rest_lattice_def by (auto simp: list_all_iff intro: rest_cell_density)
  with r l g c n show ?thesis by (auto simp: cell_values_def)
qed

text \<open>
  The lattice of \<open>cols\<close> by \<open>rows\<close> fluid cells that \<open>initLattice\<close> has built before it
  places the obstacles, and its copy by \<open>Object.assign\<close>: 1200 cells.
\<close>

theorem rest_state_is_kept_witness:
  "\<exists>s' current.
      collideAndStream (fst (initFluidLattice empty_state))
        (object_assign (fst (initFluidLattice empty_state)))
        (snd (initFluidLattice empty_state)) = Some (Inr (s', current))
      \<and> list_all (density_at_rest s') (cell_values s' (cells (fst (initFluidLattice empty_state))))
      \<and> 1200 \<le> length (cell_values s' (cells (fst (initFluidLattice empty_state))))"
proof -
  from initFluidLattice_rest
  have w: "omega (snd (initFluidLattice empty_state)) = Num 1"
    and l: "rest_lattice (snd (initFluidLattice empty_state)) (fst (initFluidLattice empty_state))"
    and g: "rest_lattice (snd (initFluidLattice empty_state))
              (object_assign (fst (initFluidLattice empty_state)))"
    and n: "length (maps (snd (initFluidLattice empty_state))
              (cells (fst (initFluidLattice empty_state)))) = 1200"
    by blast+
  from rest_state_is_kept [OF w l g] n show ?thesis
    by (auto simp: cell_values_def)
qed

text \<open>
  On that lattice, after the step, the density read from every one of the 1200 cells is
  \<open>1 + 2^-27\<close>: not the number 1.
\<close>

theorem rest_density_counterexample:
  "\<exists>s' current.
      collideAndStream (fst (initFluidLattice empty_state))
        (object_assign (fst (initFluidLattice empty_state)))
        (snd (initFluidLattice empty_state)) = Some (Inr (s', current))
      \<and> 1200 \<le> length (cell_values s' (cells (fst (initFluidLattice empty_state))))
      \<and> list_all (\<lambda>c. case density c of None \<Rightarrow> False
                        | Some d \<Rightarrow> getDensity (arrays s' d) = Num (1 + 1 / 2 ^ 27)
                                    \<and> getDensity (arrays s' d) \<noteq> Num 1)
          (cell_values s' (cells (fst (initFluidLattice empty_state))))"
proof -
  from initFluidLattice_rest
  have w: "omega (snd (initFluidLattice empty_state)) = Num 1"
    and l: "rest_lattice (snd (initFluidLattice empty_state)) (fst (initFluidLattice empty_state))"
    and g: "rest_lattice (snd (initFluidLattice empty_state))
              (object_assign (fst (initFluidLattice empty_state)))"
    and n: "length (maps (snd (initFluidLattice empty_state))
              (cells (fst (initFluidLattice empty_state)))) = 1200"
    by blast+
  from collideAndStream_rest [OF w l g]
  obtain s' current where r: "collideAndStream (fst (initFluidLattice empty_state))
        (object_assign (fst (initFluidLattice empty_state)))
        (snd (initFluidLattice empty_state)) = Some (Inr (s', current))"
    and l': "rest_lattice s' (fst (initFluidLattice empty_state))"
    and n': "length (maps (snd (initFluidLattice empty_state)) (cells (fst (initFluidLattice empty_state))))
             \<le> length (maps s' (cells (fst (initFluidLattice empty_state))))"
    by blast
  have "list_all (\<lambda>c. case density c of None \<Rightarrow> False
                        | Some d \<Rightarrow> getDensity (arrays s' d) = Num (1 + 1 / 2 ^ 27)
                                    \<and> getDensity (arrays s' d) \<noteq> Num 1)
          (cell_values s' (cells (fst (initFluidLattice empty_state))))"
    using l' unfolding rest_lattice_def
    by (auto simp: list_all_iff rest_cell_def getDensity_weights split: option.splits)
  with r n n' show ?thesis by (auto simp: cell_values_def)
qed

end
